theory Spec2Isabelle
  imports Main "HOL-Library.Multiset"
begin

section \<open>Data model of the ASAP validator\<close>

text \<open>
  The embedding follows \<^verbatim>\<open>beaconrunner/validators/ASAPValidator.py\<close>. The validator
  object \<^verbatim>\<open>self\<close> carries \<^verbatim>\<open>self.data\<close> (duties and slashing-protection
  memory) and \<^verbatim>\<open>self.store\<close> (the clock). Slots and times are Python integers,
  modelled as \<open>int\<close>. The three \<^verbatim>\<open>last_slot_*\<close> fields hold a slot or Python's
  \<^verbatim>\<open>None\<close>; \<^verbatim>\<open>current_attest_slot\<close> is the slot, if any, the validator attests
  in. A comparison \<^verbatim>\<open>x == slot\<close> with \<^verbatim>\<open>x = None\<close> is false in Python, which is
  what \<open>x = Some slot\<close> gives.
\<close>

datatype error = ZeroDivisionError | IndexError | ProducerFailure

record config =
  SECONDS_PER_SLOT :: int
  SLOTS_PER_EPOCH :: int

record ValidatorData =
  slot :: int
  current_attest_slot :: "int option"
  current_proposer_duties :: "bool list"
  current_sync_committee :: "int list"
  received_block :: bool
  last_slot_attested :: "int option"
  last_slot_sync_committee :: "int option"
  last_slot_proposed :: "int option"

record Store =
  time :: int
  genesis_time :: int

record ASAPValidator =
  data :: ValidatorData
  store :: Store

text \<open>
  A call on the mutable object either returns a value or raises, and leaves the object
  in some state: a result is the value or the error, paired with the validator after
  the call. The producers \<^verbatim>\<open>honest_attest\<close>, \<^verbatim>\<open>honest_sync_committee\<close> and
  \<^verbatim>\<open>honest_propose\<close> of \<^verbatim>\<open>validatorlib\<close> receive \<^verbatim>\<open>self\<close> and
  \<^verbatim>\<open>known_items\<close>; they are parameters of the entry points.
\<close>

type_synonym 'a result = "(error + 'a) \<times> ASAPValidator"

type_synonym ('k, 'a) producer = "ASAPValidator \<Rightarrow> 'k \<Rightarrow> 'a result"

section \<open>Python primitives\<close>

definition py_mod :: "int \<Rightarrow> int \<Rightarrow> error + int" where
  "py_mod a b = (if b = 0 then Inl ZeroDivisionError else Inr (a mod b))"

text \<open>
  \<^verbatim>\<open>xs[i]\<close> on a Python list: an index from \<open>-len(xs)\<close> up to \<open>-1\<close> counts from the
  end, and an index outside \<open>-len(xs) .. len(xs) - 1\<close> raises \<^verbatim>\<open>IndexError\<close>.
\<close>

definition py_index :: "'a list \<Rightarrow> int \<Rightarrow> error + 'a" where
  "py_index xs i =
     (if 0 \<le> i \<and> i < int (length xs) then Inr (xs ! nat i)
      else if i < 0 \<and> - int (length xs) \<le> i then Inr (xs ! nat (int (length xs) + i))
      else Inl IndexError)"

text \<open>\<^verbatim>\<open>return producer(self, known_items)\<close>: the artifact, or the exception, passes through.\<close>

definition returned :: "'a result \<Rightarrow> ('a option) result" where
  "returned r = (map_sum id Some (fst r), snd r)"

section \<open>The three entry points\<close>

definition time_in_slot :: "config \<Rightarrow> ASAPValidator \<Rightarrow> error + int" where
  "time_in_slot cfg self =
     py_mod (time (store self) - genesis_time (store self)) (SECONDS_PER_SLOT cfg)"

definition attest ::
  "config \<Rightarrow> ('k, 'a) producer \<Rightarrow> ASAPValidator \<Rightarrow> 'k \<Rightarrow> ('a option) result" where
  "attest cfg producer self known_items =
     (if current_attest_slot (data self) \<noteq> Some (slot (data self)) then (Inr None, self)
      else
        (case time_in_slot cfg self of
           Inl e \<Rightarrow> (Inl e, self)
         | Inr t \<Rightarrow>
             if \<not> received_block (data self) \<and> t < 4 then (Inr None, self)
             else if last_slot_attested (data self) = Some (slot (data self))
               then (Inr None, self)
             else returned (producer self known_items)))"

definition sync_committees ::
  "config \<Rightarrow> ('k, 's) producer \<Rightarrow> ASAPValidator \<Rightarrow> 'k \<Rightarrow> ('s option) result" where
  "sync_committees cfg producer self known_items =
     (if length (current_sync_committee (data self)) = 0 then (Inr None, self)
      else
        (case time_in_slot cfg self of
           Inl e \<Rightarrow> (Inl e, self)
         | Inr t \<Rightarrow>
             if \<not> received_block (data self) \<and> t < 4 then (Inr None, self)
             else if last_slot_sync_committee (data self) = Some (slot (data self))
               then (Inr None, self)
             else returned (producer self known_items)))"

definition proposer_duty :: "config \<Rightarrow> ASAPValidator \<Rightarrow> error + bool" where
  "proposer_duty cfg self =
     (case py_mod (slot (data self)) (SLOTS_PER_EPOCH cfg) of
        Inl e \<Rightarrow> Inl e
      | Inr i \<Rightarrow> py_index (current_proposer_duties (data self)) i)"

definition propose ::
  "config \<Rightarrow> ('k, 'b) producer \<Rightarrow> ASAPValidator \<Rightarrow> 'k \<Rightarrow> ('b option) result" where
  "propose cfg producer self known_items =
     (case proposer_duty cfg self of
        Inl e \<Rightarrow> (Inl e, self)
      | Inr duty \<Rightarrow>
          if \<not> duty then (Inr None, self)
          else if last_slot_proposed (data self) = Some (slot (data self))
            then (Inr None, self)
          else returned (producer self known_items))"

section \<open>The decisions as the specification words them\<close>

text \<open>
  The specification's cutoff is \<open>SECONDS_PER_SLOT / 3\<close>. For an integer time in slot
  \<open>t\<close>, \<open>t < SECONDS_PER_SLOT / 3\<close> is \<open>3 * t < SECONDS_PER_SLOT\<close>.
\<close>

definition before_third :: "config \<Rightarrow> int \<Rightarrow> bool" where
  "before_third cfg t = (3 * t < SECONDS_PER_SLOT cfg)"

definition attest_claimed ::
  "config \<Rightarrow> ('k, 'a) producer \<Rightarrow> ASAPValidator \<Rightarrow> 'k \<Rightarrow> ('a option) result" where
  "attest_claimed cfg producer self known_items =
     (if current_attest_slot (data self) \<noteq> Some (slot (data self)) then (Inr None, self)
      else
        (case time_in_slot cfg self of
           Inl e \<Rightarrow> (Inl e, self)
         | Inr t \<Rightarrow>
             if \<not> received_block (data self) \<and> before_third cfg t then (Inr None, self)
             else if last_slot_attested (data self) = Some (slot (data self))
               then (Inr None, self)
             else returned (producer self known_items)))"

definition sync_committees_claimed ::
  "config \<Rightarrow> ('k, 's) producer \<Rightarrow> ASAPValidator \<Rightarrow> 'k \<Rightarrow> ('s option) result" where
  "sync_committees_claimed cfg producer self known_items =
     (if current_sync_committee (data self) = [] then (Inr None, self)
      else
        (case time_in_slot cfg self of
           Inl e \<Rightarrow> (Inl e, self)
         | Inr t \<Rightarrow>
             if \<not> received_block (data self) \<and> before_third cfg t then (Inr None, self)
             else if last_slot_sync_committee (data self) = Some (slot (data self))
               then (Inr None, self)
             else returned (producer self known_items)))"

section \<open>Guards and memory\<close>

text \<open>The guards of each entry point, as the source evaluates them: the producer is called.\<close>

definition attest_due :: "config \<Rightarrow> ASAPValidator \<Rightarrow> bool" where
  "attest_due cfg self =
     (current_attest_slot (data self) = Some (slot (data self)) \<and>
      (case time_in_slot cfg self of
         Inl e \<Rightarrow> False
       | Inr t \<Rightarrow> received_block (data self) \<or> 4 \<le> t) \<and>
      last_slot_attested (data self) \<noteq> Some (slot (data self)))"

definition sync_due :: "config \<Rightarrow> ASAPValidator \<Rightarrow> bool" where
  "sync_due cfg self =
     (current_sync_committee (data self) \<noteq> [] \<and>
      (case time_in_slot cfg self of
         Inl e \<Rightarrow> False
       | Inr t \<Rightarrow> received_block (data self) \<or> 4 \<le> t) \<and>
      last_slot_sync_committee (data self) \<noteq> Some (slot (data self)))"

definition propose_due :: "config \<Rightarrow> ASAPValidator \<Rightarrow> bool" where
  "propose_due cfg self =
     (proposer_duty cfg self = Inr True \<and>
      last_slot_proposed (data self) \<noteq> Some (slot (data self)))"

text \<open>The slashing-protection memory: the three \<^verbatim>\<open>last_slot_*\<close> fields.\<close>

definition memory :: "ASAPValidator \<Rightarrow> int option \<times> int option \<times> int option" where
  "memory self =
     (last_slot_attested (data self), last_slot_sync_committee (data self),
      last_slot_proposed (data self))"

text \<open>The validator with another block flag and another clock, all else equal.\<close>

definition with_clock :: "bool \<Rightarrow> int \<Rightarrow> int \<Rightarrow> ASAPValidator \<Rightarrow> ASAPValidator" where
  "with_clock rb t g self =
     self\<lparr>data := (data self)\<lparr>received_block := rb\<rparr>,
          store := (store self)\<lparr>time := t, genesis_time := g\<rparr>\<rparr>"

section \<open>The entry points behind one signature\<close>

datatype duty = Attest | Sync | Propose

datatype ('a, 's, 'b) artifact = Attestation 'a | SyncBundles 's | SignedBlock 'b

definition tagged :: "('x \<Rightarrow> 'y) \<Rightarrow> ('x option) result \<Rightarrow> ('y option) result" where
  "tagged f r = (map_sum id (map_option f) (fst r), snd r)"

definition emitted :: "error + 'x option \<Rightarrow> bool" where
  "emitted r = (case r of Inr (Some x) \<Rightarrow> True | _ \<Rightarrow> False)"


definition set_last_slot :: "duty \<Rightarrow> int option \<Rightarrow> ASAPValidator \<Rightarrow> ASAPValidator" where
  "set_last_slot d x self =
     (case d of
        Attest \<Rightarrow> self\<lparr>data := (data self)\<lparr>last_slot_attested := x\<rparr>\<rparr>
      | Sync \<Rightarrow> self\<lparr>data := (data self)\<lparr>last_slot_sync_committee := x\<rparr>\<rparr>
      | Propose \<Rightarrow> self\<lparr>data := (data self)\<lparr>last_slot_proposed := x\<rparr>\<rparr>)"

text \<open>The three producers the entry points are called with, and the call for a duty.\<close>

record ('k, 'a, 's, 'b) producers =
  attest_producer :: "('k, 'a) producer"
  sync_producer :: "('k, 's) producer"
  propose_producer :: "('k, 'b) producer"

definition call ::
  "config \<Rightarrow> ('k, 'a, 's, 'b) producers \<Rightarrow> duty \<Rightarrow> ASAPValidator \<Rightarrow> 'k
     \<Rightarrow> ((('a, 's, 'b) artifact) option) result" where
  "call cfg ps d self known_items =
     (case d of
        Attest \<Rightarrow> tagged Attestation (attest cfg (attest_producer ps) self known_items)
      | Sync \<Rightarrow> tagged SyncBundles (sync_committees cfg (sync_producer ps) self known_items)
      | Propose \<Rightarrow> tagged SignedBlock (propose cfg (propose_producer ps) self known_items))"

text \<open>
  The calls of one tick in a given order, on the same items, each on the validator the
  call before it left. No entry point handles an exception, so a call that raises ends
  the sequence: the later entry points are not called.
\<close>

fun tick ::
  "config \<Rightarrow> ('k, 'a, 's, 'b) producers \<Rightarrow> duty list \<Rightarrow> ASAPValidator \<Rightarrow> 'k
     \<Rightarrow> (duty \<times> (error + (('a, 's, 'b) artifact) option)) list \<times> ASAPValidator" where
  "tick cfg ps [] self known_items = ([], self)"
| "tick cfg ps (d # ds) self known_items =
     (let r = call cfg ps d self known_items
      in if isl (fst r) then ([(d, fst r)], snd r)
         else (let rest = tick cfg ps ds (snd r) known_items
               in ((d, fst r) # fst rest, snd rest)))"


section \<open>The producers and the driver, from the specification\<close>

text \<open>
  The collaborators that synthesise the content of an artifact (the specification's
  \<^verbatim>\<open>produce_attestation\<close>, \<^verbatim>\<open>produce_sync_bundles\<close>, \<^verbatim>\<open>produce_block\<close>):
  each returns an artifact or fails.
\<close>

record ('k, 'a, 's, 'b) collaborators =
  produce_attestation :: "ASAPValidator \<Rightarrow> 'k \<Rightarrow> error + 'a"
  produce_sync_bundles :: "ASAPValidator \<Rightarrow> 'k \<Rightarrow> error + 's"
  produce_block :: "ASAPValidator \<Rightarrow> 'k \<Rightarrow> error + 'b"

definition record_attested :: "ASAPValidator \<Rightarrow> ASAPValidator" where
  "record_attested self =
     self\<lparr>data := (data self)\<lparr>last_slot_attested := Some (slot (data self))\<rparr>\<rparr>"

definition record_sync_committee :: "ASAPValidator \<Rightarrow> ASAPValidator" where
  "record_sync_committee self =
     self\<lparr>data := (data self)\<lparr>last_slot_sync_committee := Some (slot (data self))\<rparr>\<rparr>"

definition record_proposed :: "ASAPValidator \<Rightarrow> ASAPValidator" where
  "record_proposed self =
     self\<lparr>data := (data self)\<lparr>last_slot_proposed := Some (slot (data self))\<rparr>\<rparr>"

text \<open>
  Modelled from the spec: \<^verbatim>\<open>honest_attest\<close> of \<^verbatim>\<open>beaconrunner/validatorlib.py\<close>,
  which is not among the sources. Section 4.1, step 4: delegate to the Artifact
  Producer with \<^verbatim>\<open>known_items\<close>, obtain an attestation, set
  \<^verbatim>\<open>last_slot_attested = current_slot\<close>, and return it. Section 4.3: the error
  propagates outward rather than recording the action as done if the producer reports
  failure.
\<close>

definition honest_attest ::
  "(ASAPValidator \<Rightarrow> 'k \<Rightarrow> error + 'a) \<Rightarrow> ('k, 'a) producer" where
  "honest_attest produce self known_items =
     (case produce self known_items of
        Inl e \<Rightarrow> (Inl e, self)
      | Inr attestation \<Rightarrow> (Inr attestation, record_attested self))"

text \<open>
  Modelled from the spec: \<^verbatim>\<open>honest_sync_committee\<close> of
  \<^verbatim>\<open>beaconrunner/validatorlib.py\<close>, which is not among the sources. Section 4.2: on
  success, produces a sequence of bundles and sets
  \<^verbatim>\<open>last_slot_sync_committee = current_slot\<close>.
\<close>

definition honest_sync_committee ::
  "(ASAPValidator \<Rightarrow> 'k \<Rightarrow> error + 's) \<Rightarrow> ('k, 's) producer" where
  "honest_sync_committee produce self known_items =
     (case produce self known_items of
        Inl e \<Rightarrow> (Inl e, self)
      | Inr bundles \<Rightarrow> (Inr bundles, record_sync_committee self))"

text \<open>
  Modelled from the spec: \<^verbatim>\<open>honest_propose\<close> of \<^verbatim>\<open>beaconrunner/validatorlib.py\<close>,
  which is not among the sources. Section 4.3, step 3: delegate to the Artifact
  Producer, set \<^verbatim>\<open>last_slot_proposed = current_slot\<close>, return the produced block.
\<close>

definition honest_propose ::
  "(ASAPValidator \<Rightarrow> 'k \<Rightarrow> error + 'b) \<Rightarrow> ('k, 'b) producer" where
  "honest_propose produce self known_items =
     (case produce self known_items of
        Inl e \<Rightarrow> (Inl e, self)
      | Inr block \<Rightarrow> (Inr block, record_proposed self))"

text \<open>The three entry points with the producers that record the action.\<close>

definition invoke ::
  "config \<Rightarrow> ('k, 'a, 's, 'b) collaborators \<Rightarrow> duty \<Rightarrow> ASAPValidator \<Rightarrow> 'k
     \<Rightarrow> ((('a, 's, 'b) artifact) option) result" where
  "invoke cfg col d self known_items =
     (case d of
        Attest \<Rightarrow>
          tagged Attestation (attest cfg (honest_attest (produce_attestation col)) self known_items)
      | Sync \<Rightarrow>
          tagged SyncBundles
            (sync_committees cfg (honest_sync_committee (produce_sync_bundles col)) self known_items)
      | Propose \<Rightarrow>
          tagged SignedBlock (propose cfg (honest_propose (produce_block col)) self known_items))"

text \<open>The slashing-protection memory of a duty: recording it, and finding it recorded.\<close>

definition recorded :: "duty \<Rightarrow> ASAPValidator \<Rightarrow> ASAPValidator" where
  "recorded d self =
     (case d of
        Attest \<Rightarrow> record_attested self
      | Sync \<Rightarrow> record_sync_committee self
      | Propose \<Rightarrow> record_proposed self)"

definition discharged :: "duty \<Rightarrow> ASAPValidator \<Rightarrow> bool" where
  "discharged d self =
     (case d of
        Attest \<Rightarrow> last_slot_attested (data self) = Some (slot (data self))
      | Sync \<Rightarrow> last_slot_sync_committee (data self) = Some (slot (data self))
      | Propose \<Rightarrow> last_slot_proposed (data self) = Some (slot (data self)))"

text \<open>
  Modelled from the spec: the external driver, which is not among the sources. Section
  6: per tick it hands the core a snapshot of the duties, the block flag and the clock,
  and calls the entry points. Within one slot \<^verbatim>\<open>current_slot\<close> stays as it is, and the
  three \<^verbatim>\<open>last_slot_*\<close> fields are mutated only by the scheduler (section 3).
\<close>

record snapshot =
  new_attest_slot :: "int option"
  new_proposer_duties :: "bool list"
  new_sync_committee :: "int list"
  new_received_block :: bool
  new_time :: int
  new_genesis_time :: int

definition refresh :: "snapshot \<Rightarrow> ASAPValidator \<Rightarrow> ASAPValidator" where
  "refresh snap self =
     self\<lparr>data := (data self)\<lparr>current_attest_slot := new_attest_slot snap,
                               current_proposer_duties := new_proposer_duties snap,
                               current_sync_committee := new_sync_committee snap,
                               received_block := new_received_block snap\<rparr>,
          store := (store self)\<lparr>time := new_time snap, genesis_time := new_genesis_time snap\<rparr>\<rparr>"

text \<open>
  Modelled from the spec: the driver's calls within one slot (section 2: an external
  driver calls the scheduler's entry points on every tick). Before each call the driver
  refreshes the snapshot, then calls one entry point with the items known at that tick.
\<close>

fun run_slot ::
  "config \<Rightarrow> ('k, 'a, 's, 'b) collaborators \<Rightarrow> (snapshot \<times> duty \<times> 'k) list \<Rightarrow> ASAPValidator
     \<Rightarrow> (duty \<times> (error + (('a, 's, 'b) artifact) option)) list" where
  "run_slot cfg col [] self = []"
| "run_slot cfg col ((snap, d, known_items) # calls) self =
     (let r = invoke cfg col d (refresh snap self) known_items
      in (d, fst r) # run_slot cfg col calls (snd r))"

section \<open>Concrete configurations, states and producers\<close>

definition mainnet :: config where
  "mainnet = \<lparr>SECONDS_PER_SLOT = 12, SLOTS_PER_EPOCH = 32\<rparr>"

definition minimal :: config where
  "minimal = \<lparr>SECONDS_PER_SLOT = 6, SLOTS_PER_EPOCH = 8\<rparr>"

definition long_slots :: config where
  "long_slots = \<lparr>SECONDS_PER_SLOT = 24, SLOTS_PER_EPOCH = 32\<rparr>"

definition short_epochs :: config where
  "short_epochs = \<lparr>SECONDS_PER_SLOT = 12, SLOTS_PER_EPOCH = 8\<rparr>"

text \<open>
  Slot 5, the validator's attesting slot; proposer at index 5 of a duty sequence of
  length 8; sync-committee member; no block received; nothing signed yet; clock at
  genesis.
\<close>

definition validator5 :: ASAPValidator where
  "validator5 =
     \<lparr>data = \<lparr>slot = 5, current_attest_slot = Some 5,
               current_proposer_duties = [False, False, False, False, False, True, False, False],
               current_sync_committee = [3], received_block = False,
               last_slot_attested = None, last_slot_sync_committee = None,
               last_slot_proposed = None\<rparr>,
      store = \<lparr>time = 0, genesis_time = 0\<rparr>\<rparr>"

text \<open>The driver's snapshot of that validator's duties, with a block flag and a clock.\<close>

definition snapshot5 :: "bool \<Rightarrow> int \<Rightarrow> snapshot" where
  "snapshot5 rb t =
     \<lparr>new_attest_slot = Some 5,
      new_proposer_duties = [False, False, False, False, False, True, False, False],
      new_sync_committee = [3], new_received_block = rb, new_time = t,
      new_genesis_time = 0\<rparr>"

text \<open>
  Four calls within slot 5: \<open>attest\<close> four seconds into the slot, \<open>attest\<close> again
  after a block has arrived, \<open>propose\<close>, and \<open>attest\<close> once more with other items.
\<close>

definition calls5 :: "(snapshot \<times> duty \<times> nat) list" where
  "calls5 =
     [(snapshot5 False 64, Attest, 1), (snapshot5 True 65, Attest, 1),
      (snapshot5 True 66, Propose, 1), (snapshot5 True 67, Attest, 2)]"

text \<open>The same validator at another slot.\<close>

definition at_slot :: "int \<Rightarrow> ASAPValidator \<Rightarrow> ASAPValidator" where
  "at_slot n self = self\<lparr>data := (data self)\<lparr>slot := n\<rparr>\<rparr>"

text \<open>The validator at slot 5 whose memory records slot 9 as signed for every duty.\<close>

definition signed_ahead :: ASAPValidator where
  "signed_ahead =
     validator5\<lparr>data := (data validator5)\<lparr>last_slot_attested := Some 9,
                                            last_slot_sync_committee := Some 9,
                                            last_slot_proposed := Some 9\<rparr>\<rparr>"

text \<open>The validator at slot 9 with that slot recorded as proposed.\<close>

definition proposed_slot9 :: ASAPValidator where
  "proposed_slot9 =
     validator5\<lparr>data := (data validator5)\<lparr>slot := 9, last_slot_proposed := Some 9\<rparr>\<rparr>"

text \<open>A snapshot whose duty sequence has two entries only, and two proposals with it.\<close>

definition snapshot_short :: snapshot where
  "snapshot_short =
     \<lparr>new_attest_slot = Some 5, new_proposer_duties = [False, True],
      new_sync_committee = [3], new_received_block = True, new_time = 67,
      new_genesis_time = 0\<rparr>"

definition calls_short :: "(snapshot \<times> duty \<times> nat) list" where
  "calls_short = [(snapshot5 True 66, Propose, 1), (snapshot_short, Propose, 1)]"

text \<open>A producer that returns the given artifact and leaves the validator as it is.\<close>

definition yields :: "'a \<Rightarrow> ('k, 'a) producer" where
  "yields a self known_items = (Inr a, self)"

text \<open>A content producer that signs the current slot, for each of the three artifacts.\<close>

definition sign_slot :: "ASAPValidator \<Rightarrow> nat \<Rightarrow> error + int" where
  "sign_slot self known_items = Inr (slot (data self))"

definition signers :: "(nat, int, int, int) collaborators" where
  "signers = \<lparr>produce_attestation = sign_slot, produce_sync_bundles = sign_slot,
              produce_block = sign_slot\<rparr>"



text \<open>
  A producer for each duty that signs the current slot and records it in the field of
  its duty; and a block producer that reads the attestation memory: it builds on the
  slot after the last attestation, or on slot 0 when there is none.
\<close>

definition marking :: "duty \<Rightarrow> (nat, int) producer" where
  "marking d self known_items =
     (Inr (slot (data self)), set_last_slot d (Some (slot (data self))) self)"


definition markers :: "(nat, int, int, int) producers" where
  "markers = \<lparr>attest_producer = marking Attest, sync_producer = marking Sync,
              propose_producer = marking Propose\<rparr>"


section \<open>Evaluation lemmas\<close>

lemma returned_yields: "returned (yields a self k) = (Inr (Some a), self)"
  by (simp add: returned_def yields_def)

lemma time_in_slot_with_clock:
  "time_in_slot cfg (with_clock rb t g self) = py_mod (t - g) (SECONDS_PER_SLOT cfg)"
  by (simp add: time_in_slot_def with_clock_def)

lemma data_with_clock:
  "data (with_clock rb t g self) = (data self)\<lparr>received_block := rb\<rparr>"
  by (simp add: with_clock_def)

lemma validator5_fields:
  "slot (data (with_clock rb t g validator5)) = 5"
  "current_attest_slot (data (with_clock rb t g validator5)) = Some 5"
  "current_sync_committee (data (with_clock rb t g validator5)) = [3]"
  "received_block (data (with_clock rb t g validator5)) = rb"
  "last_slot_attested (data (with_clock rb t g validator5)) = None"
  "last_slot_sync_committee (data (with_clock rb t g validator5)) = None"
  "last_slot_proposed (data (with_clock rb t g validator5)) = None"
  by (simp_all add: with_clock_def validator5_def)

lemma proposer_duty_short_epochs:
  "proposer_duty short_epochs (with_clock rb t g validator5) = Inr True"
  by (simp add: proposer_duty_def py_mod_def py_index_def short_epochs_def with_clock_def
      validator5_def)

section \<open>When the producer is called\<close>

lemma attest_delegates:
  "attest_due cfg self \<Longrightarrow>
     attest cfg producer self known_items = returned (producer self known_items)"
  by (auto simp: attest_due_def attest_def split: sum.splits)

lemma attest_declines:
  "\<not> attest_due cfg self \<Longrightarrow>
     \<not> emitted (fst (attest cfg producer self known_items)) \<and>
     snd (attest cfg producer self known_items) = self"
  by (auto simp: attest_due_def attest_def emitted_def split: sum.splits)

lemma sync_delegates:
  "sync_due cfg self \<Longrightarrow>
     sync_committees cfg producer self known_items = returned (producer self known_items)"
  by (auto simp: sync_due_def sync_committees_def split: sum.splits)

lemma sync_declines:
  "\<not> sync_due cfg self \<Longrightarrow>
     \<not> emitted (fst (sync_committees cfg producer self known_items)) \<and>
     snd (sync_committees cfg producer self known_items) = self"
  by (auto simp: sync_due_def sync_committees_def emitted_def split: sum.splits)

lemma propose_delegates:
  "propose_due cfg self \<Longrightarrow>
     propose cfg producer self known_items = returned (producer self known_items)"
  by (auto simp: propose_due_def propose_def split: sum.splits)

lemma propose_declines:
  "\<not> propose_due cfg self \<Longrightarrow>
     \<not> emitted (fst (propose cfg producer self known_items)) \<and>
     snd (propose cfg producer self known_items) = self"
  by (auto simp: propose_due_def propose_def emitted_def split: sum.splits)

lemma due_at_four_seconds:
  "attest_due short_epochs (with_clock False 64 0 validator5)"
  "sync_due short_epochs (with_clock False 64 0 validator5)"
  "propose_due short_epochs (with_clock False 64 0 validator5)"
  by (simp_all add: attest_due_def sync_due_def propose_due_def validator5_fields
      time_in_slot_with_clock py_mod_def proposer_duty_short_epochs)
    (simp_all add: short_epochs_def)



section \<open>The attest decision\<close>

text \<open>
  With slots of 12 seconds the literal cutoff of the source is \<open>SECONDS_PER_SLOT / 3\<close>,
  and \<open>attest\<close> is the decision as the specification words it: \<^verbatim>\<open>None\<close> if the current
  slot differs from \<open>current_attest_slot\<close>; otherwise \<^verbatim>\<open>None\<close> if no block was received
  and the time in slot is below the cutoff; otherwise \<^verbatim>\<open>None\<close> if \<open>last_slot_attested\<close>
  is the current slot; otherwise what the producer returns.
\<close>

lemma attest_as_claimed_at_twelve:
  "SECONDS_PER_SLOT cfg = 12 \<Longrightarrow>
     attest cfg producer self known_items = attest_claimed cfg producer self known_items"
  by (auto simp: attest_def attest_claimed_def before_third_def split: sum.splits)

text \<open>
  C3, in the minimal configuration (slots of 6 seconds): three seconds into its attesting
  slot, with no block received and nothing attested, the claimed guards all pass (3 is
  not below \<open>6 / 3\<close>) and the claim has the producer's attestation returned; the source
  compares with the literal 4, where its docstring says \<open>SECONDS_PER_SLOT / 3\<close>, and
  returns \<^verbatim>\<open>None\<close>.
\<close>

theorem attest_literal_cutoff:
  "attest minimal (yields (7::nat)) (with_clock False 3 0 validator5) ()
     = (Inr None, with_clock False 3 0 validator5) \<and>
   attest_claimed minimal (yields (7::nat)) (with_clock False 3 0 validator5) ()
     = (Inr (Some 7), with_clock False 3 0 validator5)"
  by (simp add: attest_def attest_claimed_def time_in_slot_with_clock data_with_clock
      py_mod_def before_third_def minimal_def validator5_def returned_yields)

section \<open>The timing gate\<close>

text \<open>
  C4, at a slot of 24 seconds: five seconds into the slot, with no block received, the
  time in slot is below \<open>SECONDS_PER_SLOT / 3 = 8\<close>, where the claim has both decisions
  return \<^verbatim>\<open>None\<close>; the source compares with the literal 4, so both \<open>attest\<close> and
  \<open>sync_committees\<close> call their producer and return its artifact.
\<close>

theorem timing_gate_literal_cutoff:
  "\<not> received_block (data (with_clock False 5 0 validator5)) \<and>
   time_in_slot long_slots (with_clock False 5 0 validator5) = Inr 5 \<and>
   before_third long_slots 5 \<and>
   attest long_slots (yields (7::nat)) (with_clock False 5 0 validator5) ()
     = (Inr (Some 7), with_clock False 5 0 validator5) \<and>
   sync_committees long_slots (yields (9::nat)) (with_clock False 5 0 validator5) ()
     = (Inr (Some 9), with_clock False 5 0 validator5)"
  by (simp add: attest_def sync_committees_def time_in_slot_with_clock data_with_clock
      py_mod_def before_third_def long_slots_def validator5_def returned_yields)

section \<open>The sync-committee decision\<close>

text \<open>
  With slots of 12 seconds \<open>sync_committees\<close> is the decision as the specification
  words it: the three guards of \<open>attest\<close> with the duty guard replaced by the membership
  check.
\<close>

lemma sync_committees_as_claimed_at_twelve:
  "SECONDS_PER_SLOT cfg = 12 \<Longrightarrow>
     sync_committees cfg producer self known_items
       = sync_committees_claimed cfg producer self known_items"
  by (auto simp: sync_committees_def sync_committees_claimed_def before_third_def
      split: sum.splits)

text \<open>
  C6, in the minimal configuration (slots of 6 seconds): three seconds into the slot, a
  committee member with no block received and nothing signed passes the claimed guards
  (3 is not below \<open>6 / 3\<close>) and the claim has the producer's bundles returned; the
  source compares with the literal 4, where its docstring says \<open>SECONDS_PER_SLOT / 3\<close>,
  and returns \<^verbatim>\<open>None\<close>.
\<close>

theorem sync_committees_literal_cutoff:
  "sync_committees minimal (yields (9::nat)) (with_clock False 3 0 validator5) ()
     = (Inr None, with_clock False 3 0 validator5) \<and>
   sync_committees_claimed minimal (yields (9::nat)) (with_clock False 3 0 validator5) ()
     = (Inr (Some 9), with_clock False 3 0 validator5)"
  by (simp add: sync_committees_def sync_committees_claimed_def time_in_slot_with_clock
      data_with_clock py_mod_def before_third_def minimal_def validator5_def returned_yields)

section \<open>The proposer-duty lookup\<close>

lemma proposer_duty_in_range:
  assumes "0 < SLOTS_PER_EPOCH cfg"
    and "slot (data self) mod SLOTS_PER_EPOCH cfg < int (length (current_proposer_duties (data self)))"
  shows "proposer_duty cfg self =
     Inr (current_proposer_duties (data self) ! nat (slot (data self) mod SLOTS_PER_EPOCH cfg))"
  using assms by (simp add: proposer_duty_def py_mod_def py_index_def)

lemma proposer_duty_out_of_range:
  assumes "0 < SLOTS_PER_EPOCH cfg"
    and "int (length (current_proposer_duties (data self))) \<le> slot (data self) mod SLOTS_PER_EPOCH cfg"
  shows "proposer_duty cfg self = Inl IndexError"
proof -
  have "0 \<le> slot (data self) mod SLOTS_PER_EPOCH cfg"
    using assms(1) by simp
  with assms show ?thesis
    by (simp add: proposer_duty_def py_mod_def py_index_def)
qed

lemma proposer_duty_no_epoch:
  "SLOTS_PER_EPOCH cfg = 0 \<Longrightarrow> proposer_duty cfg self = Inl ZeroDivisionError"
  by (simp add: proposer_duty_def py_mod_def)

lemma propose_lookup_error:
  "proposer_duty cfg self = Inl e \<Longrightarrow> propose cfg producer self known_items = (Inl e, self)"
  by (simp add: propose_def)

text \<open>
  C8, as stated, on the mainnet configuration: the duty sequence of \<open>validator5\<close> has 8
  entries, fewer than \<open>SLOTS_PER_EPOCH = 32\<close>, yet at slot 5 the index is in range and
  \<open>propose\<close> returns a block without any error.
\<close>

theorem short_duties_counterexample:
  "int (length (current_proposer_duties (data validator5))) < SLOTS_PER_EPOCH mainnet \<and>
   proposer_duty mainnet validator5 = Inr True \<and>
   propose mainnet (yields (11::nat)) validator5 () = (Inr (Some 11), validator5)"
  by (simp add: propose_def proposer_duty_def py_mod_def py_index_def mainnet_def
      validator5_def returned_yields)

text \<open>
  C8, amended: if \<open>current_proposer_duties\<close> has length \<open>SLOTS_PER_EPOCH > 0\<close>, the
  index \<open>slot mod SLOTS_PER_EPOCH\<close> is in bounds and the lookup returns the entry at
  that index, never an error. If the sequence is shorter than \<open>SLOTS_PER_EPOCH\<close>, the
  lookup raises \<^verbatim>\<open>IndexError\<close> exactly when \<open>slot mod SLOTS_PER_EPOCH\<close> is at or beyond
  the length of the sequence, and \<open>propose\<close> then aborts with that error, the validator
  unchanged and no producer called; at a smaller index the lookup returns the entry
  that is there.
\<close>

theorem proposer_duty_lookup_safety:
  "(0 < SLOTS_PER_EPOCH cfg \<and>
    int (length (current_proposer_duties (data self))) = SLOTS_PER_EPOCH cfg \<longrightarrow>
      0 \<le> slot (data self) mod SLOTS_PER_EPOCH cfg \<and>
      slot (data self) mod SLOTS_PER_EPOCH cfg
        < int (length (current_proposer_duties (data self))) \<and>
      proposer_duty cfg self =
        Inr (current_proposer_duties (data self) ! nat (slot (data self) mod SLOTS_PER_EPOCH cfg)))
   \<and>
   (0 < SLOTS_PER_EPOCH cfg \<and>
    int (length (current_proposer_duties (data self))) < SLOTS_PER_EPOCH cfg \<longrightarrow>
      (proposer_duty cfg self = Inl IndexError) =
        (int (length (current_proposer_duties (data self)))
           \<le> slot (data self) mod SLOTS_PER_EPOCH cfg) \<and>
      (int (length (current_proposer_duties (data self)))
           \<le> slot (data self) mod SLOTS_PER_EPOCH cfg \<longrightarrow>
         propose cfg producer self known_items = (Inl IndexError, self)) \<and>
      (slot (data self) mod SLOTS_PER_EPOCH cfg
           < int (length (current_proposer_duties (data self))) \<longrightarrow>
         proposer_duty cfg self =
           Inr (current_proposer_duties (data self)
                  ! nat (slot (data self) mod SLOTS_PER_EPOCH cfg))))"
proof (intro conjI impI)
  assume wf: "0 < SLOTS_PER_EPOCH cfg \<and>
    int (length (current_proposer_duties (data self))) = SLOTS_PER_EPOCH cfg"
  then show nonneg: "0 \<le> slot (data self) mod SLOTS_PER_EPOCH cfg"
    by simp
  from wf show below: "slot (data self) mod SLOTS_PER_EPOCH cfg
        < int (length (current_proposer_duties (data self)))"
    by simp
  from wf below show "proposer_duty cfg self =
        Inr (current_proposer_duties (data self) ! nat (slot (data self) mod SLOTS_PER_EPOCH cfg))"
    by (intro proposer_duty_in_range) simp_all
next
  assume short: "0 < SLOTS_PER_EPOCH cfg \<and>
    int (length (current_proposer_duties (data self))) < SLOTS_PER_EPOCH cfg"
  show "(proposer_duty cfg self = Inl IndexError) =
        (int (length (current_proposer_duties (data self)))
           \<le> slot (data self) mod SLOTS_PER_EPOCH cfg)"
  proof (cases "int (length (current_proposer_duties (data self)))
           \<le> slot (data self) mod SLOTS_PER_EPOCH cfg")
    case True
    with short show ?thesis by (simp add: proposer_duty_out_of_range)
  next
    case False
    with short show ?thesis by (simp add: proposer_duty_in_range)
  qed
next
  assume short: "0 < SLOTS_PER_EPOCH cfg \<and>
    int (length (current_proposer_duties (data self))) < SLOTS_PER_EPOCH cfg"
    and beyond: "int (length (current_proposer_duties (data self)))
           \<le> slot (data self) mod SLOTS_PER_EPOCH cfg"
  then have "proposer_duty cfg self = Inl IndexError"
    by (simp add: proposer_duty_out_of_range)
  then show "propose cfg producer self known_items = (Inl IndexError, self)"
    by (rule propose_lookup_error)
next
  assume "0 < SLOTS_PER_EPOCH cfg \<and>
    int (length (current_proposer_duties (data self))) < SLOTS_PER_EPOCH cfg"
    and "slot (data self) mod SLOTS_PER_EPOCH cfg
           < int (length (current_proposer_duties (data self)))"
  then show "proposer_duty cfg self =
           Inr (current_proposer_duties (data self)
                  ! nat (slot (data self) mod SLOTS_PER_EPOCH cfg))"
    by (simp add: proposer_duty_in_range)
qed

theorem proposer_duty_lookup_safety_witness:
  "(0 < SLOTS_PER_EPOCH minimal \<and>
    int (length (current_proposer_duties (data validator5))) = SLOTS_PER_EPOCH minimal) \<and>
   proposer_duty minimal validator5 = Inr True \<and>
   (0 < SLOTS_PER_EPOCH mainnet \<and>
    int (length (current_proposer_duties (data (at_slot 9 validator5))))
      < SLOTS_PER_EPOCH mainnet) \<and>
   int (length (current_proposer_duties (data (at_slot 9 validator5))))
     \<le> slot (data (at_slot 9 validator5)) mod SLOTS_PER_EPOCH mainnet \<and>
   propose mainnet (yields (11::nat)) (at_slot 9 validator5) ()
     = (Inl IndexError, at_slot 9 validator5)"
proof -
  have wf: "0 < SLOTS_PER_EPOCH minimal \<and>
    int (length (current_proposer_duties (data validator5))) = SLOTS_PER_EPOCH minimal"
    by (simp add: minimal_def validator5_def)
  have entry: "current_proposer_duties (data validator5)
      ! nat (slot (data validator5) mod SLOTS_PER_EPOCH minimal) = True"
    by (simp add: minimal_def validator5_def)
  have short: "0 < SLOTS_PER_EPOCH mainnet \<and>
    int (length (current_proposer_duties (data (at_slot 9 validator5))))
      < SLOTS_PER_EPOCH mainnet"
    by (simp add: mainnet_def validator5_def at_slot_def)
  have beyond: "int (length (current_proposer_duties (data (at_slot 9 validator5))))
     \<le> slot (data (at_slot 9 validator5)) mod SLOTS_PER_EPOCH mainnet"
    by (simp add: mainnet_def validator5_def at_slot_def)
  from proposer_duty_lookup_safety [of minimal validator5 "yields (11::nat)" "()"] wf entry
  have first: "proposer_duty minimal validator5 = Inr True"
    by simp
  from proposer_duty_lookup_safety [of mainnet "at_slot 9 validator5" "yields (11::nat)" "()"]
    short beyond
  have second: "propose mainnet (yields (11::nat)) (at_slot 9 validator5) ()
     = (Inl IndexError, at_slot 9 validator5)"
    by simp
  from wf first short beyond second show ?thesis by simp
qed

section \<open>The propose decision\<close>

lemma fst_returned_None: "fst (returned r) \<noteq> Inr None"
  by (cases "fst r") (simp_all add: returned_def)

lemma proposer_duty_with_clock:
  "proposer_duty cfg (with_clock rb t g self) = proposer_duty cfg self"
  by (simp add: proposer_duty_def with_clock_def split: sum.splits)

lemma propose_cases:
  "propose cfg producer self known_items =
     (case proposer_duty cfg self of
        Inl e \<Rightarrow> (Inl e, self)
      | Inr duty \<Rightarrow>
          if \<not> duty \<or> last_slot_proposed (data self) = Some (slot (data self))
            then (Inr None, self)
          else returned (producer self known_items))"
  by (simp add: propose_def split: sum.splits)

lemma proposer_duty_python:
  assumes "SLOTS_PER_EPOCH cfg \<noteq> 0"
    and "- int (length (current_proposer_duties (data self)))
           \<le> slot (data self) mod SLOTS_PER_EPOCH cfg"
    and "slot (data self) mod SLOTS_PER_EPOCH cfg
           < int (length (current_proposer_duties (data self)))"
  shows "proposer_duty cfg self =
     Inr (current_proposer_duties (data self)
            ! nat (if slot (data self) mod SLOTS_PER_EPOCH cfg < 0
                   then int (length (current_proposer_duties (data self)))
                          + slot (data self) mod SLOTS_PER_EPOCH cfg
                   else slot (data self) mod SLOTS_PER_EPOCH cfg))"
  using assms by (simp add: proposer_duty_def py_mod_def py_index_def)

lemma proposer_duty_outside:
  assumes "SLOTS_PER_EPOCH cfg \<noteq> 0"
    and "slot (data self) mod SLOTS_PER_EPOCH cfg
           < - int (length (current_proposer_duties (data self))) \<or>
         int (length (current_proposer_duties (data self)))
           \<le> slot (data self) mod SLOTS_PER_EPOCH cfg"
  shows "proposer_duty cfg self = Inl IndexError"
  using assms by (auto simp: proposer_duty_def py_mod_def py_index_def)

lemma propose_decided:
  assumes "proposer_duty cfg self = Inr entry"
  shows "propose cfg producer (with_clock rb t g self) known_items =
     (if \<not> entry \<or> last_slot_proposed (data self) = Some (slot (data self))
      then (Inr None, with_clock rb t g self)
      else returned (producer (with_clock rb t g self) known_items))"
proof -
  have "proposer_duty cfg (with_clock rb t g self) = Inr entry"
    using assms by (simp add: proposer_duty_with_clock)
  moreover have "last_slot_proposed (data (with_clock rb t g self)) = last_slot_proposed (data self)"
    "slot (data (with_clock rb t g self)) = slot (data self)"
    by (simp_all add: with_clock_def)
  ultimately show ?thesis
    by (simp add: propose_cases)
qed

lemma with_clock_same:
  "with_clock (received_block (data self)) (time (store self)) (genesis_time (store self)) self
     = self"
  by (simp add: with_clock_def)

text \<open>
  C5, as stated, on the mainnet configuration: at slot 9, with that slot already recorded
  in \<open>last_slot_proposed\<close> and a duty sequence of 8 entries, the claim has \<open>propose\<close>
  return \<^verbatim>\<open>None\<close> (\<open>last_slot_proposed\<close> equals the current slot); the source looks
  the duty up first, at index \<open>9 mod 32\<close>, and raises \<^verbatim>\<open>IndexError\<close>.
\<close>

theorem propose_lookup_counterexample:
  "last_slot_proposed (data proposed_slot9) = Some (slot (data proposed_slot9)) \<and>
   propose mainnet (yields (11::nat)) proposed_slot9 () = (Inl IndexError, proposed_slot9)"
  by (simp add: propose_def proposer_duty_def py_mod_def py_index_def mainnet_def
      proposed_slot9_def validator5_def)

text \<open>
  C5, amended: when the lookup of the duty at index \<open>slot mod SLOTS_PER_EPOCH\<close> does not
  raise (the index is within the duty sequence by Python's indexing; always so when the
  sequence has length \<open>SLOTS_PER_EPOCH > 0\<close>), \<open>propose\<close> returns \<^verbatim>\<open>None\<close> if and only
  if the duty entry at that index is false or \<open>last_slot_proposed\<close> equals the current
  slot, and otherwise returns what the producer returns. The decision does not depend on
  \<open>received_block\<close>, \<open>store.time\<close> or \<open>store.genesis_time\<close>: with any other values for
  the three, the same entry and the same memory decide, and the producer is called on
  the validator it is given. When the index is outside the sequence, \<open>propose\<close> raises
  \<^verbatim>\<open>IndexError\<close>, and with \<open>SLOTS_PER_EPOCH = 0\<close> it raises \<^verbatim>\<open>ZeroDivisionError\<close>,
  whatever \<open>last_slot_proposed\<close> holds.
\<close>

theorem propose_characterization:
  "(let i = slot (data self) mod SLOTS_PER_EPOCH cfg;
        n = int (length (current_proposer_duties (data self)));
        entry = current_proposer_duties (data self) ! nat (if i < 0 then n + i else i);
        declines = (\<not> entry \<or> last_slot_proposed (data self) = Some (slot (data self)));
        other = self\<lparr>data := (data self)\<lparr>received_block := rb\<rparr>,
                     store := (store self)\<lparr>time := t, genesis_time := g\<rparr>\<rparr>
    in (SLOTS_PER_EPOCH cfg \<noteq> 0 \<and> - n \<le> i \<and> i < n \<longrightarrow>
          (fst (propose cfg producer self known_items) = Inr None) = declines \<and>
          propose cfg producer self known_items =
            (if declines then (Inr None, self) else returned (producer self known_items)) \<and>
          propose cfg producer other known_items =
            (if declines then (Inr None, other) else returned (producer other known_items))) \<and>
       (SLOTS_PER_EPOCH cfg \<noteq> 0 \<and> (i < - n \<or> n \<le> i) \<longrightarrow>
          propose cfg producer self known_items = (Inl IndexError, self)) \<and>
       (SLOTS_PER_EPOCH cfg = 0 \<longrightarrow>
          propose cfg producer self known_items = (Inl ZeroDivisionError, self)))"
proof -
  define i where "i = slot (data self) mod SLOTS_PER_EPOCH cfg"
  define n where "n = int (length (current_proposer_duties (data self)))"
  define entry where
    "entry = current_proposer_duties (data self) ! nat (if i < 0 then n + i else i)"
  define declines where
    "declines = (\<not> entry \<or> last_slot_proposed (data self) = Some (slot (data self)))"
  have within: "propose cfg producer (with_clock rb' t' g' self) known_items =
      (if declines then (Inr None, with_clock rb' t' g' self)
       else returned (producer (with_clock rb' t' g' self) known_items))"
    if "SLOTS_PER_EPOCH cfg \<noteq> 0 \<and> - n \<le> i \<and> i < n" for rb' t' g'
  proof -
    from that have "proposer_duty cfg self = Inr entry"
      unfolding entry_def i_def n_def by (intro proposer_duty_python) simp_all
    then show ?thesis
      unfolding declines_def by (rule propose_decided)
  qed
  have here: "propose cfg producer self known_items =
      (if declines then (Inr None, self) else returned (producer self known_items))"
    if "SLOTS_PER_EPOCH cfg \<noteq> 0 \<and> - n \<le> i \<and> i < n"
    using within [OF that, of "received_block (data self)" "time (store self)"
        "genesis_time (store self)"]
    by (simp add: with_clock_same)
  have iff: "(fst (propose cfg producer self known_items) = Inr None) = declines"
    if "SLOTS_PER_EPOCH cfg \<noteq> 0 \<and> - n \<le> i \<and> i < n"
    using here [OF that] by (simp add: fst_returned_None)
  have outside: "propose cfg producer self known_items = (Inl IndexError, self)"
    if "SLOTS_PER_EPOCH cfg \<noteq> 0 \<and> (i < - n \<or> n \<le> i)"
  proof -
    from that have "proposer_duty cfg self = Inl IndexError"
      unfolding i_def n_def by (intro proposer_duty_outside) simp_all
    then show ?thesis by (rule propose_lookup_error)
  qed
  have zero: "propose cfg producer self known_items = (Inl ZeroDivisionError, self)"
    if "SLOTS_PER_EPOCH cfg = 0"
    using that by (intro propose_lookup_error proposer_duty_no_epoch)
  from within [of rb t g] here iff outside zero show ?thesis
    unfolding Let_def with_clock_def i_def n_def entry_def declines_def
    by blast
qed

theorem propose_characterization_witness:
  "(SLOTS_PER_EPOCH minimal \<noteq> 0 \<and>
    - int (length (current_proposer_duties (data validator5)))
      \<le> slot (data validator5) mod SLOTS_PER_EPOCH minimal \<and>
    slot (data validator5) mod SLOTS_PER_EPOCH minimal
      < int (length (current_proposer_duties (data validator5)))) \<and>
   current_proposer_duties (data validator5)
     ! nat (slot (data validator5) mod SLOTS_PER_EPOCH minimal) \<and>
   propose minimal (yields (11::nat)) validator5 () = (Inr (Some 11), validator5) \<and>
   propose minimal (yields (11::nat)) (with_clock True 7 3 validator5) ()
     = (Inr (Some 11), with_clock True 7 3 validator5) \<and>
   propose mainnet (yields (11::nat)) (at_slot 9 validator5) ()
     = (Inl IndexError, at_slot 9 validator5) \<and>
   propose \<lparr>SECONDS_PER_SLOT = 12, SLOTS_PER_EPOCH = 0\<rparr> (yields (11::nat)) validator5 ()
     = (Inl ZeroDivisionError, validator5)"
proof -
  have epoch: "SLOTS_PER_EPOCH minimal = 8"
    and index: "slot (data validator5) mod SLOTS_PER_EPOCH minimal = 5"
    and length: "int (length (current_proposer_duties (data validator5))) = 8"
    and entry: "current_proposer_duties (data validator5) ! 5"
    and memory: "last_slot_proposed (data validator5) = None"
    by (simp_all add: minimal_def validator5_def)
  have epoch': "SLOTS_PER_EPOCH mainnet = 32"
    and index': "slot (data (at_slot 9 validator5)) mod SLOTS_PER_EPOCH mainnet = 9"
    and length': "int (length (current_proposer_duties (data (at_slot 9 validator5)))) = 8"
    by (simp_all add: mainnet_def validator5_def at_slot_def)
  from propose_characterization
    [where cfg = minimal and self = validator5 and producer = "yields (11::nat)"
       and known_items = "()" and rb = True and t = 7 and g = 3, unfolded Let_def]
    epoch index length entry memory
  have here: "propose minimal (yields (11::nat)) validator5 () = (Inr (Some 11), validator5)"
    and clocked: "propose minimal (yields (11::nat)) (with_clock True 7 3 validator5) ()
     = (Inr (Some 11), with_clock True 7 3 validator5)"
    by (simp_all add: returned_yields with_clock_def)
  from propose_characterization
    [where cfg = mainnet and self = "at_slot 9 validator5" and producer = "yields (11::nat)"
       and known_items = "()" and rb = True and t = 7 and g = 3, unfolded Let_def]
    epoch' index' length'
  have short: "propose mainnet (yields (11::nat)) (at_slot 9 validator5) ()
     = (Inl IndexError, at_slot 9 validator5)"
    by simp
  from propose_characterization
    [where cfg = "\<lparr>SECONDS_PER_SLOT = 12, SLOTS_PER_EPOCH = 0\<rparr>" and self = validator5
       and producer = "yields (11::nat)" and known_items = "()" and rb = True and t = 7
       and g = 3, unfolded Let_def]
  have none: "propose \<lparr>SECONDS_PER_SLOT = 12, SLOTS_PER_EPOCH = 0\<rparr> (yields (11::nat))
      validator5 () = (Inl ZeroDivisionError, validator5)"
    by simp
  from epoch index length entry here clocked short none show ?thesis
    by simp
qed

section \<open>The slashing guards compare for equality\<close>

text \<open>
  C10: in a state whose slashing-protection memory for a duty holds a slot strictly
  greater than the current slot, and whose other guards pass (the duty is assigned;
  for \<open>attest\<close> and \<open>sync_committees\<close> a block was received or at least 4 seconds of
  the slot have elapsed), each entry point still calls its producer and returns what it
  returns.
\<close>

theorem slashing_guard_equality_only:
  "(current_attest_slot (data self) = Some (slot (data self)) \<and>
    time_in_slot cfg self = Inr t \<and> (received_block (data self) \<or> 4 \<le> t) \<and>
    last_slot_attested (data self) = Some later \<and> slot (data self) < later
      \<longrightarrow> attest cfg attester self known_items = returned (attester self known_items)) \<and>
   (current_sync_committee (data self) \<noteq> [] \<and>
    time_in_slot cfg self = Inr t \<and> (received_block (data self) \<or> 4 \<le> t) \<and>
    last_slot_sync_committee (data self) = Some later \<and> slot (data self) < later
      \<longrightarrow> sync_committees cfg signer self known_items = returned (signer self known_items)) \<and>
   (proposer_duty cfg self = Inr True \<and>
    last_slot_proposed (data self) = Some later \<and> slot (data self) < later
      \<longrightarrow> propose cfg proposer self known_items = returned (proposer self known_items))"
  by (auto simp: attest_def sync_committees_def propose_def)

theorem slashing_guard_equality_only_witness:
  "slot (data signed_ahead) = 5 \<and>
   last_slot_attested (data signed_ahead) = Some 9 \<and>
   last_slot_sync_committee (data signed_ahead) = Some 9 \<and>
   last_slot_proposed (data signed_ahead) = Some 9 \<and>
   attest short_epochs (yields (7::nat)) (with_clock True 60 0 signed_ahead) ()
     = (Inr (Some 7), with_clock True 60 0 signed_ahead) \<and>
   sync_committees short_epochs (yields (9::nat)) (with_clock True 60 0 signed_ahead) ()
     = (Inr (Some 9), with_clock True 60 0 signed_ahead) \<and>
   propose short_epochs (yields (11::nat)) (with_clock True 60 0 signed_ahead) ()
     = (Inr (Some 11), with_clock True 60 0 signed_ahead)"
proof -
  let ?v = "with_clock True 60 0 signed_ahead"
  have fields: "slot (data ?v) = 5" "current_attest_slot (data ?v) = Some 5"
    "current_sync_committee (data ?v) \<noteq> []" "received_block (data ?v)"
    "last_slot_attested (data ?v) = Some 9" "last_slot_sync_committee (data ?v) = Some 9"
    "last_slot_proposed (data ?v) = Some 9"
    by (simp_all add: with_clock_def signed_ahead_def validator5_def)
  have clock: "time_in_slot short_epochs ?v = Inr 0"
    by (simp add: time_in_slot_def py_mod_def with_clock_def short_epochs_def)
  have duty: "proposer_duty short_epochs ?v = Inr True"
    by (simp add: proposer_duty_def py_mod_def py_index_def with_clock_def signed_ahead_def
        validator5_def short_epochs_def)
  have memory: "slot (data signed_ahead) = 5" "last_slot_attested (data signed_ahead) = Some 9"
    "last_slot_sync_committee (data signed_ahead) = Some 9"
    "last_slot_proposed (data signed_ahead) = Some 9"
    by (simp_all add: signed_ahead_def validator5_def)
  from slashing_guard_equality_only
    [of ?v short_epochs 0 9 "yields (7::nat)" "()" "yields (9::nat)" "yields (11::nat)"]
    fields clock duty memory
  show ?thesis by (simp add: returned_yields)
qed

section \<open>A failing producer\<close>




section \<open>The order of the three calls within a tick\<close>
























text \<open>
  A call that raises ends the tick, so the order decides which entry points are called
  at all: with \<open>SECONDS_PER_SLOT = 0\<close> the call of \<open>attest\<close> raises, and \<open>propose\<close>
  returns its block only when it is called before \<open>attest\<close>.
\<close>

lemma raise_ends_tick:
  "tick \<lparr>SECONDS_PER_SLOT = 0, SLOTS_PER_EPOCH = 8\<rparr> markers [Attest, Sync, Propose]
       (with_clock False 64 0 validator5) 1
     = ([(Attest, Inl ZeroDivisionError)], with_clock False 64 0 validator5) \<and>
   tick \<lparr>SECONDS_PER_SLOT = 0, SLOTS_PER_EPOCH = 8\<rparr> markers [Propose, Attest, Sync]
       (with_clock False 64 0 validator5) 1
     = ([(Propose, Inr (Some (SignedBlock 5))), (Attest, Inl ZeroDivisionError)],
        set_last_slot Propose (Some 5) (with_clock False 64 0 validator5))"
  by (simp add: Let_def call_def tagged_def markers_def attest_def propose_def returned_def
      marking_def set_last_slot_def time_in_slot_def proposer_duty_def py_mod_def py_index_def
      with_clock_def validator5_def)




section \<open>The effect of a call on the slashing-protection memory\<close>

lemma returned_honest_attest:
  "returned (honest_attest produce self known_items) =
     (case produce self known_items of
        Inl e \<Rightarrow> (Inl e, self)
      | Inr a \<Rightarrow> (Inr (Some a), record_attested self))"
  by (simp add: returned_def honest_attest_def split: sum.splits)

lemma returned_honest_sync_committee:
  "returned (honest_sync_committee produce self known_items) =
     (case produce self known_items of
        Inl e \<Rightarrow> (Inl e, self)
      | Inr a \<Rightarrow> (Inr (Some a), record_sync_committee self))"
  by (simp add: returned_def honest_sync_committee_def split: sum.splits)

lemma returned_honest_propose:
  "returned (honest_propose produce self known_items) =
     (case produce self known_items of
        Inl e \<Rightarrow> (Inl e, self)
      | Inr a \<Rightarrow> (Inr (Some a), record_proposed self))"
  by (simp add: returned_def honest_propose_def split: sum.splits)

lemma record_attested_changes:
  "last_slot_attested (data self) \<noteq> Some (slot (data self)) \<Longrightarrow> record_attested self \<noteq> self"
proof
  assume open_guard: "last_slot_attested (data self) \<noteq> Some (slot (data self))"
    and same: "record_attested self = self"
  have "last_slot_attested (data (record_attested self)) = Some (slot (data self))"
    by (simp add: record_attested_def)
  with same open_guard show False by simp
qed

lemma record_sync_committee_changes:
  "last_slot_sync_committee (data self) \<noteq> Some (slot (data self)) \<Longrightarrow>
     record_sync_committee self \<noteq> self"
proof
  assume open_guard: "last_slot_sync_committee (data self) \<noteq> Some (slot (data self))"
    and same: "record_sync_committee self = self"
  have "last_slot_sync_committee (data (record_sync_committee self)) = Some (slot (data self))"
    by (simp add: record_sync_committee_def)
  with same open_guard show False by simp
qed

lemma record_proposed_changes:
  "last_slot_proposed (data self) \<noteq> Some (slot (data self)) \<Longrightarrow> record_proposed self \<noteq> self"
proof
  assume open_guard: "last_slot_proposed (data self) \<noteq> Some (slot (data self))"
    and same: "record_proposed self = self"
  have "last_slot_proposed (data (record_proposed self)) = Some (slot (data self))"
    by (simp add: record_proposed_def)
  with same open_guard show False by simp
qed

lemma attest_effect:
  "(snd (attest cfg (honest_attest produce) self known_items) \<noteq> self) =
     emitted (fst (attest cfg (honest_attest produce) self known_items)) \<and>
   snd (attest cfg (honest_attest produce) self known_items) =
     (if emitted (fst (attest cfg (honest_attest produce) self known_items))
      then record_attested self else self)"
proof (cases "attest_due cfg self")
  case True
  then have "record_attested self \<noteq> self"
    by (simp add: attest_due_def record_attested_changes)
  with True show ?thesis
    by (simp add: attest_delegates returned_honest_attest emitted_def split: sum.splits)
next
  case False
  then show ?thesis by (simp add: attest_declines)
qed

lemma sync_effect:
  "(snd (sync_committees cfg (honest_sync_committee produce) self known_items) \<noteq> self) =
     emitted (fst (sync_committees cfg (honest_sync_committee produce) self known_items)) \<and>
   snd (sync_committees cfg (honest_sync_committee produce) self known_items) =
     (if emitted (fst (sync_committees cfg (honest_sync_committee produce) self known_items))
      then record_sync_committee self else self)"
proof (cases "sync_due cfg self")
  case True
  then have "record_sync_committee self \<noteq> self"
    by (simp add: sync_due_def record_sync_committee_changes)
  with True show ?thesis
    by (simp add: sync_delegates returned_honest_sync_committee emitted_def split: sum.splits)
next
  case False
  then show ?thesis by (simp add: sync_declines)
qed

lemma propose_effect:
  "(snd (propose cfg (honest_propose produce) self known_items) \<noteq> self) =
     emitted (fst (propose cfg (honest_propose produce) self known_items)) \<and>
   snd (propose cfg (honest_propose produce) self known_items) =
     (if emitted (fst (propose cfg (honest_propose produce) self known_items))
      then record_proposed self else self)"
proof (cases "propose_due cfg self")
  case True
  then have "record_proposed self \<noteq> self"
    by (simp add: propose_due_def record_proposed_changes)
  with True show ?thesis
    by (simp add: propose_delegates returned_honest_propose emitted_def split: sum.splits)
next
  case False
  then show ?thesis by (simp add: propose_declines)
qed

text \<open>
  C2: with the producers that record the action, a call of \<open>attest\<close> changes the
  validator if and only if it returns an artifact, and the change is then exactly
  \<open>last_slot_attested := current slot\<close>; on every other path (a \<^verbatim>\<open>None\<close> or an error)
  the validator is left as it was. The same holds of \<open>sync_committees\<close> with
  \<open>last_slot_sync_committee\<close> and of \<open>propose\<close> with \<open>last_slot_proposed\<close>.
\<close>

theorem side_effect_contract:
  "((snd (attest cfg (honest_attest pa) self known_items) \<noteq> self) =
      emitted (fst (attest cfg (honest_attest pa) self known_items)) \<and>
    snd (attest cfg (honest_attest pa) self known_items) =
      (if emitted (fst (attest cfg (honest_attest pa) self known_items))
       then record_attested self else self)) \<and>
   ((snd (sync_committees cfg (honest_sync_committee ps) self known_items) \<noteq> self) =
      emitted (fst (sync_committees cfg (honest_sync_committee ps) self known_items)) \<and>
    snd (sync_committees cfg (honest_sync_committee ps) self known_items) =
      (if emitted (fst (sync_committees cfg (honest_sync_committee ps) self known_items))
       then record_sync_committee self else self)) \<and>
   ((snd (propose cfg (honest_propose pb) self known_items) \<noteq> self) =
      emitted (fst (propose cfg (honest_propose pb) self known_items)) \<and>
    snd (propose cfg (honest_propose pb) self known_items) =
      (if emitted (fst (propose cfg (honest_propose pb) self known_items))
       then record_proposed self else self))"
  using attest_effect [of cfg pa self known_items] sync_effect [of cfg ps self known_items]
    propose_effect [of cfg pb self known_items]
  by blast

theorem side_effect_contract_witness:
  "attest short_epochs (honest_attest sign_slot) (with_clock False 64 0 validator5) 1
     = (Inr (Some 5), record_attested (with_clock False 64 0 validator5)) \<and>
   snd (attest short_epochs (honest_attest sign_slot) (with_clock False 64 0 validator5) 1)
     \<noteq> with_clock False 64 0 validator5 \<and>
   attest short_epochs (honest_attest sign_slot) (with_clock False 3 0 validator5) 1
     = (Inr None, with_clock False 3 0 validator5)"
proof -
  let ?v = "with_clock False 64 0 validator5"
  have late: "attest short_epochs (honest_attest sign_slot) ?v 1
     = (Inr (Some 5), record_attested ?v)"
    by (simp add: attest_delegates due_at_four_seconds returned_honest_attest sign_slot_def
        validator5_fields)
  have early: "attest short_epochs (honest_attest sign_slot) (with_clock False 3 0 validator5) 1
     = (Inr None, with_clock False 3 0 validator5)"
    by (simp add: attest_def validator5_fields time_in_slot_with_clock py_mod_def
        short_epochs_def)
  from side_effect_contract [of short_epochs sign_slot ?v 1 sign_slot sign_slot] late
  have "snd (attest short_epochs (honest_attest sign_slot) ?v 1) \<noteq> ?v"
    by (simp add: emitted_def)
  with late early show ?thesis by simp
qed

section \<open>At most one artifact per duty and slot\<close>

lemma emitted_tagged: "emitted (fst (tagged f r)) = emitted (fst r)"
  by (cases "fst r") (auto simp: tagged_def emitted_def split: option.splits)

lemma snd_tagged: "snd (tagged f r) = snd r"
  by (simp add: tagged_def)

lemma invoke_effect:
  "snd (invoke cfg col d self known_items) =
     (if emitted (fst (invoke cfg col d self known_items)) then recorded d self else self)"
proof (cases d)
  case Attest
  then show ?thesis
    using attest_effect [of cfg "produce_attestation col" self known_items]
    by (simp add: invoke_def recorded_def emitted_tagged snd_tagged)
next
  case Sync
  then show ?thesis
    using sync_effect [of cfg "produce_sync_bundles col" self known_items]
    by (simp add: invoke_def recorded_def emitted_tagged snd_tagged)
next
  case Propose
  then show ?thesis
    using propose_effect [of cfg "produce_block col" self known_items]
    by (simp add: invoke_def recorded_def emitted_tagged snd_tagged)
qed

lemma discharged_recorded:
  "discharged d (recorded d' self) = (d = d' \<or> discharged d self)"
  by (cases d; cases d')
    (simp_all add: discharged_def recorded_def record_attested_def record_sync_committee_def
      record_proposed_def)

lemma discharged_refresh: "discharged d (refresh snap self) = discharged d self"
  by (cases d) (simp_all add: discharged_def refresh_def)

lemma discharged_not_due:
  "discharged Attest self \<Longrightarrow> \<not> attest_due cfg self"
  "discharged Sync self \<Longrightarrow> \<not> sync_due cfg self"
  "discharged Propose self \<Longrightarrow> \<not> propose_due cfg self"
  by (simp_all add: discharged_def attest_due_def sync_due_def propose_due_def)

lemma discharged_no_emit:
  "discharged d self \<Longrightarrow> \<not> emitted (fst (invoke cfg col d self known_items))"
  by (cases d)
    (simp_all add: invoke_def emitted_tagged discharged_not_due attest_declines sync_declines
      propose_declines)

lemma discharged_after_invoke:
  "discharged d (snd (invoke cfg col d' self known_items)) =
     (discharged d self \<or> d = d' \<and> emitted (fst (invoke cfg col d' self known_items)))"
  by (auto simp: invoke_effect [of cfg col d' self known_items] discharged_recorded)

lemma slot_refresh: "slot (data (refresh snap self)) = slot (data self)"
  by (simp add: refresh_def)

lemma slot_recorded: "slot (data (recorded d self)) = slot (data self)"
  by (cases d)
    (simp_all add: recorded_def record_attested_def record_sync_committee_def
      record_proposed_def)

lemma slot_invoke: "slot (data (snd (invoke cfg col d self known_items))) = slot (data self)"
  by (simp add: invoke_effect [of cfg col d self known_items] slot_recorded)

lemma discharged_never_emits:
  "discharged d self \<Longrightarrow> (d, r) \<in> set (run_slot cfg col calls self) \<Longrightarrow> \<not> emitted r"
proof (induction calls arbitrary: self)
  case Nil
  then show ?case by simp
next
  case (Cons c calls)
  obtain snap d' known_items where c: "c = (snap, d', known_items)"
    by (cases c)
  let ?r = "invoke cfg col d' (refresh snap self) known_items"
  from Cons.prems(1) have before: "discharged d (refresh snap self)"
    by (simp add: discharged_refresh)
  then have after: "discharged d (snd ?r)"
    by (simp add: discharged_after_invoke)
  from Cons.prems(2) c
  consider "d = d'" "r = fst ?r" | "(d, r) \<in> set (run_slot cfg col calls (snd ?r))"
    by (auto simp: Let_def)
  then show ?case
  proof cases
    case 1
    with before show ?thesis by (simp add: discharged_no_emit)
  next
    case 2
    with after show ?thesis by (rule Cons.IH)
  qed
qed

lemma emits_at_most_once:
  "length (filter (\<lambda>x. fst x = d \<and> emitted (snd x)) (run_slot cfg col calls self)) \<le> 1"
proof (induction calls arbitrary: self)
  case Nil
  then show ?case by simp
next
  case (Cons c calls)
  obtain snap d' known_items where c: "c = (snap, d', known_items)"
    by (cases c)
  let ?r = "invoke cfg col d' (refresh snap self) known_items"
  show ?case
  proof (cases "d' = d \<and> emitted (fst ?r)")
    case True
    then have "discharged d (snd ?r)"
      by (auto simp: discharged_after_invoke)
    then have "\<forall>x \<in> set (run_slot cfg col calls (snd ?r)). \<not> (fst x = d \<and> emitted (snd x))"
      using discharged_never_emits [of d "snd ?r" _ cfg col calls] by auto
    then have "filter (\<lambda>x. fst x = d \<and> emitted (snd x)) (run_slot cfg col calls (snd ?r)) = []"
      by (simp add: filter_empty_conv)
    with c True show ?thesis by (simp add: Let_def)
  next
    case False
    with c Cons.IH [of "snd ?r"] show ?thesis by (auto simp: Let_def)
  qed
qed

lemma run_slot_split:
  "run_slot cfg col calls self = before @ (d, r) # after \<Longrightarrow>
     \<exists>snap known_items s calls'.
       set calls' \<subseteq> set calls \<and> slot (data s) = slot (data self) \<and>
       r = fst (invoke cfg col d (refresh snap s) known_items) \<and>
       after = run_slot cfg col calls' (snd (invoke cfg col d (refresh snap s) known_items))"
proof (induction before arbitrary: calls self)
  case Nil
  then obtain c calls' where calls: "calls = c # calls'"
    by (cases calls) auto
  obtain snap d' known_items where c: "c = (snap, d', known_items)"
    by (cases c)
  from Nil calls c
  have "set calls' \<subseteq> set calls \<and> slot (data self) = slot (data self) \<and>
       r = fst (invoke cfg col d (refresh snap self) known_items) \<and>
       after = run_slot cfg col calls' (snd (invoke cfg col d (refresh snap self) known_items))"
    by (auto simp: Let_def)
  then show ?case by blast
next
  case (Cons b before)
  then obtain c calls' where calls: "calls = c # calls'"
    by (cases calls) auto
  obtain snap d' known_items where c: "c = (snap, d', known_items)"
    by (cases c)
  let ?s = "snd (invoke cfg col d' (refresh snap self) known_items)"
  from Cons.prems calls c
  have "run_slot cfg col calls' ?s = before @ (d, r) # after"
    by (simp add: Let_def)
  then obtain snap' known_items' s calls'' where
    "set calls'' \<subseteq> set calls' \<and> slot (data s) = slot (data ?s) \<and>
       r = fst (invoke cfg col d (refresh snap' s) known_items') \<and>
       after = run_slot cfg col calls''
         (snd (invoke cfg col d (refresh snap' s) known_items'))"
    using Cons.IH by blast
  with calls have "set calls'' \<subseteq> set calls \<and> slot (data s) = slot (data self) \<and>
       r = fst (invoke cfg col d (refresh snap' s) known_items') \<and>
       after = run_slot cfg col calls''
         (snd (invoke cfg col d (refresh snap' s) known_items'))"
    by (auto simp: slot_invoke slot_refresh)
  then show ?case by blast
qed

lemma emits_config:
  assumes "emitted (fst (invoke cfg col d self known_items))"
  shows "if d = Propose then SLOTS_PER_EPOCH cfg \<noteq> 0 else SECONDS_PER_SLOT cfg \<noteq> 0"
proof (cases d)
  case Attest
  with assms
  have "emitted (fst (attest cfg (honest_attest (produce_attestation col)) self known_items))"
    by (simp add: invoke_def emitted_tagged)
  with Attest show ?thesis
    by (auto simp: attest_def time_in_slot_def py_mod_def emitted_def split: if_splits)
next
  case Sync
  with assms
  have "emitted (fst (sync_committees cfg (honest_sync_committee (produce_sync_bundles col))
      self known_items))"
    by (simp add: invoke_def emitted_tagged)
  with Sync show ?thesis
    by (auto simp: sync_committees_def time_in_slot_def py_mod_def emitted_def split: if_splits)
next
  case Propose
  with assms
  have "emitted (fst (propose cfg (honest_propose (produce_block col)) self known_items))"
    by (simp add: invoke_def emitted_tagged)
  with Propose show ?thesis
    by (auto simp: propose_def proposer_duty_def py_mod_def emitted_def split: if_splits)
qed

lemma discharged_quiet:
  assumes "discharged d self"
    and "if d = Propose then SLOTS_PER_EPOCH cfg \<noteq> 0 else SECONDS_PER_SLOT cfg \<noteq> 0"
  shows "fst (invoke cfg col d self known_items) = Inr None \<or>
         d = Propose \<and> fst (invoke cfg col d self known_items) = Inl IndexError"
proof (cases d)
  case Attest
  with assms show ?thesis
    by (simp add: invoke_def tagged_def attest_def discharged_def time_in_slot_def py_mod_def)
next
  case Sync
  with assms show ?thesis
    by (simp add: invoke_def tagged_def sync_committees_def discharged_def time_in_slot_def
        py_mod_def)
next
  case Propose
  with assms show ?thesis
    by (simp add: invoke_def tagged_def propose_def discharged_def proposer_duty_def py_mod_def
        py_index_def)
qed

lemma discharged_stays_quiet:
  assumes "if d = Propose then SLOTS_PER_EPOCH cfg \<noteq> 0 else SECONDS_PER_SLOT cfg \<noteq> 0"
  shows "discharged d self \<Longrightarrow> (d, r) \<in> set (run_slot cfg col calls self) \<Longrightarrow>
     r = Inr None \<or> d = Propose \<and> r = Inl IndexError"
proof (induction calls arbitrary: self)
  case Nil
  then show ?case by simp
next
  case (Cons c calls)
  obtain snap d' known_items where c: "c = (snap, d', known_items)"
    by (cases c)
  let ?r = "invoke cfg col d' (refresh snap self) known_items"
  from Cons.prems(1) have before: "discharged d (refresh snap self)"
    by (simp add: discharged_refresh)
  then have after: "discharged d (snd ?r)"
    by (simp add: discharged_after_invoke)
  from Cons.prems(2) c
  consider "d = d'" "r = fst ?r" | "(d, r) \<in> set (run_slot cfg col calls (snd ?r))"
    by (auto simp: Let_def)
  then show ?case
  proof cases
    case 1
    with before assms show ?thesis
      using discharged_quiet [of d "refresh snap self" cfg col known_items] by simp
  next
    case 2
    with after show ?thesis by (rule Cons.IH)
  qed
qed

lemma discharged_none:
  assumes "discharged d self"
    and "if d = Propose then SLOTS_PER_EPOCH cfg \<noteq> 0 else SECONDS_PER_SLOT cfg \<noteq> 0"
    and "- int (length (current_proposer_duties (data self)))
           \<le> slot (data self) mod SLOTS_PER_EPOCH cfg"
    and "slot (data self) mod SLOTS_PER_EPOCH cfg
           < int (length (current_proposer_duties (data self)))"
  shows "fst (invoke cfg col d self known_items) = Inr None"
proof (cases d)
  case Propose
  with assms(2-4) have "\<exists>entry. proposer_duty cfg self = Inr entry"
    by (simp add: proposer_duty_def py_mod_def py_index_def)
  with Propose assms(1) show ?thesis
    by (auto simp: invoke_def tagged_def propose_def discharged_def)
next
  case Attest
  with discharged_quiet [OF assms(1,2), of col known_items] show ?thesis by simp
next
  case Sync
  with discharged_quiet [OF assms(1,2), of col known_items] show ?thesis by simp
qed

lemma duties_refresh:
  "current_proposer_duties (data (refresh snap self)) = new_proposer_duties snap"
  by (simp add: refresh_def)

lemma discharged_stays_none:
  assumes "if d = Propose then SLOTS_PER_EPOCH cfg \<noteq> 0 else SECONDS_PER_SLOT cfg \<noteq> 0"
    and "\<forall>c \<in> set calls.
           - int (length (new_proposer_duties (fst c))) \<le> i \<and>
           i < int (length (new_proposer_duties (fst c)))"
  shows "set calls' \<subseteq> set calls \<Longrightarrow> slot (data self) mod SLOTS_PER_EPOCH cfg = i \<Longrightarrow>
     discharged d self \<Longrightarrow> (d, r) \<in> set (run_slot cfg col calls' self) \<Longrightarrow> r = Inr None"
proof (induction calls' arbitrary: self)
  case Nil
  then show ?case by simp
next
  case (Cons c calls')
  obtain snap d' known_items where c: "c = (snap, d', known_items)"
    by (cases c)
  let ?s = "refresh snap self"
  let ?r = "invoke cfg col d' ?s known_items"
  from Cons.prems(1) c assms(2)
  have "- int (length (new_proposer_duties snap)) \<le> i \<and>
      i < int (length (new_proposer_duties snap))"
    by auto
  with Cons.prems(2)
  have lower: "- int (length (current_proposer_duties (data ?s)))
      \<le> slot (data ?s) mod SLOTS_PER_EPOCH cfg"
    and upper: "slot (data ?s) mod SLOTS_PER_EPOCH cfg
      < int (length (current_proposer_duties (data ?s)))"
    by (simp_all add: duties_refresh slot_refresh)
  from Cons.prems(1) have rest: "set calls' \<subseteq> set calls"
    by simp
  from Cons.prems(2) have index: "slot (data (snd ?r)) mod SLOTS_PER_EPOCH cfg = i"
    by (simp add: slot_invoke slot_refresh)
  from Cons.prems(3) have before: "discharged d ?s"
    by (simp add: discharged_refresh)
  then have after: "discharged d (snd ?r)"
    by (simp add: discharged_after_invoke)
  from Cons.prems(4) c
  consider "d = d'" "r = fst ?r" | "(d, r) \<in> set (run_slot cfg col calls' (snd ?r))"
    by (auto simp: Let_def)
  then show ?case
  proof cases
    case 1
    with before assms(1) lower upper show ?thesis
      using discharged_none [of d ?s cfg col known_items] by simp
  next
    case 2
    with rest index after show ?thesis by (rule Cons.IH)
  qed
qed

lemma run_calls5:
  "run_slot short_epochs signers calls5 validator5 =
     [(Attest, Inr (Some (Attestation 5))), (Attest, Inr None),
      (Propose, Inr (Some (SignedBlock 5))), (Attest, Inr None)]"
  by (simp add: calls5_def Let_def invoke_def tagged_def attest_def propose_def
      honest_attest_def honest_propose_def returned_def time_in_slot_def proposer_duty_def
      py_mod_def py_index_def refresh_def snapshot5_def validator5_def short_epochs_def
      signers_def sign_slot_def record_attested_def record_proposed_def)

text \<open>
  C1, as stated: within slot 5 the validator proposes; the driver then hands it a duty
  sequence of two entries, and the next call of \<open>propose\<close> in the same slot does not
  return \<^verbatim>\<open>None\<close>: it raises \<^verbatim>\<open>IndexError\<close>.
\<close>

theorem short_duties_after_proposal_counterexample:
  "run_slot short_epochs signers calls_short validator5 =
     [(Propose, Inr (Some (SignedBlock 5))), (Propose, Inl IndexError)]"
  by (simp add: calls_short_def Let_def invoke_def tagged_def propose_def
      honest_propose_def returned_def proposer_duty_def py_mod_def py_index_def refresh_def
      snapshot5_def snapshot_short_def validator5_def short_epochs_def signers_def
      sign_slot_def record_proposed_def)

text \<open>
  C1, amended: in every sequence of calls within one slot (the driver refreshes duties,
  block flag and clock before each call; the slot stays as it is), each entry point
  returns an artifact at most once. After a call of an entry point has returned an
  artifact, no later call of that entry point in the sequence returns one: it returns
  \<^verbatim>\<open>None\<close> whenever the duty sequences handed to the validator hold the index
  \<open>slot mod SLOTS_PER_EPOCH\<close> (as every sequence of length \<open>SLOTS_PER_EPOCH\<close> does);
  with a sequence too short for that index the one other outcome is that \<open>propose\<close>
  raises \<^verbatim>\<open>IndexError\<close>.
\<close>

theorem at_most_once_per_slot:
  "length (filter (\<lambda>x. fst x = d \<and> emitted (snd x)) (run_slot cfg col calls self)) \<le> 1 \<and>
   (run_slot cfg col calls self = before @ (d, r) # after \<and> emitted r \<and>
    (d, r') \<in> set after \<longrightarrow>
      \<not> emitted r' \<and> (r' = Inr None \<or> d = Propose \<and> r' = Inl IndexError) \<and>
      ((\<forall>c \<in> set calls.
          - int (length (new_proposer_duties (fst c)))
            \<le> slot (data self) mod SLOTS_PER_EPOCH cfg \<and>
          slot (data self) mod SLOTS_PER_EPOCH cfg
            < int (length (new_proposer_duties (fst c))))
         \<longrightarrow> r' = Inr None))"
proof (intro conjI impI)
  show "length (filter (\<lambda>x. fst x = d \<and> emitted (snd x)) (run_slot cfg col calls self)) \<le> 1"
    by (rule emits_at_most_once)
next
  assume run: "run_slot cfg col calls self = before @ (d, r) # after \<and> emitted r \<and>
    (d, r') \<in> set after"
  then obtain snap known_items s calls' where
    sub: "set calls' \<subseteq> set calls" and
    slot: "slot (data s) = slot (data self)" and
    r: "r = fst (invoke cfg col d (refresh snap s) known_items)" and
    after: "after = run_slot cfg col calls' (snd (invoke cfg col d (refresh snap s) known_items))"
    using run_slot_split [of cfg col calls self before d r after] by blast
  let ?s = "snd (invoke cfg col d (refresh snap s) known_items)"
  from run r have emits: "emitted (fst (invoke cfg col d (refresh snap s) known_items))"
    by simp
  then have config: "if d = Propose then SLOTS_PER_EPOCH cfg \<noteq> 0 else SECONDS_PER_SLOT cfg \<noteq> 0"
    by (rule emits_config)
  from emits have marked: "discharged d ?s"
    by (simp add: discharged_after_invoke)
  from run after have later: "(d, r') \<in> set (run_slot cfg col calls' ?s)"
    by simp
  from marked later show "\<not> emitted r'"
    by (rule discharged_never_emits)
  from config marked later show "r' = Inr None \<or> d = Propose \<and> r' = Inl IndexError"
    by (rule discharged_stays_quiet)
  assume within: "\<forall>c \<in> set calls.
          - int (length (new_proposer_duties (fst c)))
            \<le> slot (data self) mod SLOTS_PER_EPOCH cfg \<and>
          slot (data self) mod SLOTS_PER_EPOCH cfg
            < int (length (new_proposer_duties (fst c)))"
  from slot have index: "slot (data ?s) mod SLOTS_PER_EPOCH cfg
      = slot (data self) mod SLOTS_PER_EPOCH cfg"
    by (simp add: slot_invoke slot_refresh)
  from config within sub index marked later show "r' = Inr None"
    by (rule discharged_stays_none)
qed

theorem at_most_once_per_slot_witness:
  "run_slot short_epochs signers calls5 validator5 =
     [] @ (Attest, Inr (Some (Attestation 5)))
        # [(Attest, Inr None), (Propose, Inr (Some (SignedBlock 5))), (Attest, Inr None)] \<and>
   emitted (Inr (Some (Attestation (5::int))) :: error + (int, int, int) artifact option) \<and>
   list_all
     (\<lambda>c. - int (length (new_proposer_duties (fst c)))
             \<le> slot (data validator5) mod SLOTS_PER_EPOCH short_epochs \<and>
          slot (data validator5) mod SLOTS_PER_EPOCH short_epochs
             < int (length (new_proposer_duties (fst c))))
     calls5 \<and>
   length (filter (\<lambda>x. fst x = Attest \<and> emitted (snd x))
     (run_slot short_epochs signers calls5 validator5)) = 1"
proof -
  have run: "run_slot short_epochs signers calls5 validator5 =
     [] @ (Attest, Inr (Some (Attestation 5)))
        # [(Attest, Inr None), (Propose, Inr (Some (SignedBlock 5))), (Attest, Inr None)]"
    by (simp add: run_calls5)
  have emits: "emitted (Inr (Some (Attestation (5::int))) :: error + (int, int, int) artifact option)"
    by (simp add: emitted_def)
  have lengths: "list_all
     (\<lambda>c. - int (length (new_proposer_duties (fst c)))
             \<le> slot (data validator5) mod SLOTS_PER_EPOCH short_epochs \<and>
          slot (data validator5) mod SLOTS_PER_EPOCH short_epochs
             < int (length (new_proposer_duties (fst c))))
     calls5"
    by (simp add: calls5_def snapshot5_def short_epochs_def validator5_def)
  from at_most_once_per_slot
    [of Attest short_epochs signers calls5 validator5 "[]" "Inr (Some (Attestation 5))"
      "[(Attest, Inr None), (Propose, Inr (Some (SignedBlock 5))), (Attest, Inr None)]"
      "Inr None"]
  have "length (filter (\<lambda>x. fst x = Attest \<and> emitted (snd x))
     (run_slot short_epochs signers calls5 validator5)) \<le> 1"
    by simp
  moreover have "length (filter (\<lambda>x. fst x = Attest \<and> emitted (snd x))
     (run_slot short_epochs signers calls5 validator5)) \<ge> 1"
    by (simp add: run_calls5 emitted_def)
  ultimately show ?thesis using run emits lengths by simp
qed

end
